theory Spec2Isabelle
  imports Complex_Main "HOL-Library.Word"
begin

section \<open>Python strings and lists\<close>

text \<open>
  A Python \<open>str\<close> is modelled as a list of characters, each character a code point
  below 256. A float is represented by the real number it stands for, and its arithmetic
  is not that of the reals, so both operations the parser uses are parameters of every
  definition that converts a field: \<open>py_float\<close> is \<open>float(s)\<close>, returning \<open>None\<close>
  where Python raises \<open>ValueError\<close>, and \<open>float_mul\<close> is the product of two floats,
  rounded as the machine rounds it. The infinities and NaN, which \<open>float\<close> returns on
  strings such as \<open>inf\<close> and \<open>nan\<close>, stand for no real number: a name with such a
  field is outside what is modelled.
\<close>

datatype error =
    ValueError string
  | IndexError
  | OSError string
  | WaveError string
  | EOFError

text \<open>\<open>s.split('.')\<close>: always at least one field, empty fields kept.\<close>

fun split_dot :: "string \<Rightarrow> string list" where
  "split_dot [] = [[]]"
| "split_dot (c # cs) =
     (if c = CHR ''.'' then [] # split_dot cs
      else (case split_dot cs of
              [] \<Rightarrow> [[c]]
            | p # ps \<Rightarrow> (c # p) # ps))"

text \<open>
  \<open>str.isspace\<close> on the code points below 256: tab, line feed, vertical tab, form feed,
  carriage return, the four separators 28 to 31, space, next line (133) and no-break
  space (160).
\<close>

definition is_space :: "char \<Rightarrow> bool" where
  "is_space c = (of_char c \<in> {9, 10, 11, 12, 13, 28, 29, 30, 31, 32, 133, 160 :: nat})"

text \<open>\<open>s.strip()\<close>\<close>

definition strip :: "string \<Rightarrow> string" where
  "strip s = rev (dropWhile is_space (rev (dropWhile is_space s)))"

text \<open>\<open>sub in s\<close> on strings: \<open>sub\<close> occurs in \<open>s\<close> as a contiguous run.\<close>

definition starts_with :: "string \<Rightarrow> string \<Rightarrow> bool" where
  "starts_with sub s = (take (length sub) s = sub)"

fun str_in :: "string \<Rightarrow> string \<Rightarrow> bool" where
  "str_in sub [] = (sub = [])"
| "str_in sub (c # cs) = (starts_with sub (c # cs) \<or> str_in sub cs)"

text \<open>
  \<open>xs[i]\<close> with Python's indexing: a negative index counts from the end, an index out
  of range raises \<open>IndexError\<close>.
\<close>

definition py_index :: "'a list \<Rightarrow> int \<Rightarrow> error + 'a" where
  "py_index xs i =
     (if 0 \<le> i \<and> i < int (length xs) then Inr (xs ! nat i)
      else if i < 0 \<and> - i \<le> int (length xs) then Inr (xs ! nat (int (length xs) + i))
      else Inl IndexError)"

section \<open>The filename parser\<close>

text \<open>
  The tuple \<open>(ok, data_type, complex_flag, sample_rate_hz, centre_frequency)\<close> that
  \<open>parse_filename\<close> returns.
\<close>

type_synonym parsed = "bool \<times> string \<times> bool \<times> real \<times> real"

definition p_ok :: "parsed \<Rightarrow> bool" where
  "p_ok p = fst p"

definition p_data_type :: "parsed \<Rightarrow> string" where
  "p_data_type p = fst (snd p)"

definition p_complex :: "parsed \<Rightarrow> bool" where
  "p_complex p = fst (snd (snd p))"

definition p_sample_rate :: "parsed \<Rightarrow> real" where
  "p_sample_rate p = fst (snd (snd (snd p)))"

definition p_centre_frequency :: "parsed \<Rightarrow> real" where
  "p_centre_frequency p = snd (snd (snd (snd p)))"

text \<open>
  The indices of the fields that contain \<open>cf\<close>:
  \<open>[i for i, part in enumerate(parts) if 'cf' in part]\<close>.
\<close>

definition cf_indices :: "string list \<Rightarrow> nat list" where
  "cf_indices parts = filter (\<lambda>i. str_in ''cf'' (parts ! i)) [0 ..< length parts]"

text \<open>
  The body of the \<open>try\<close> block for one index: \<open>parts[index + 1]\<close> is read before any
  conversion, and only \<open>ValueError\<close> (a failed \<open>float\<close>) is caught, leaving the centre
  frequency at its default \<open>0.0\<close>. The \<open>IndexError\<close> of the read is not caught.
\<close>

definition cf_at ::
  "(string \<Rightarrow> real option) \<Rightarrow> (real \<Rightarrow> real \<Rightarrow> real) \<Rightarrow> string list \<Rightarrow> nat
   \<Rightarrow> error + real" where
  "cf_at py_float float_mul parts index =
     (case py_index parts (int index) of
        Inl e \<Rightarrow> Inl e
      | Inr cf \<Rightarrow>
          (case py_index parts (int index + 1) of
             Inl e \<Rightarrow> Inl e
           | Inr nxt \<Rightarrow>
               if nxt \<in> set [''cplx'', ''real''] then
                 (case py_float (drop 2 cf) of
                    None \<Rightarrow> Inr 0
                  | Some v \<Rightarrow> Inr (float_mul v 1000000))
               else
                 (case py_index parts (- 4) of
                    Inl e \<Rightarrow> Inl e
                  | Inr cf_decimal_fraction \<Rightarrow>
                      (case py_float (drop 2 cf @ ''.'' @ cf_decimal_fraction) of
                         None \<Rightarrow> Inr 0
                       | Some v \<Rightarrow> Inr (float_mul v 1000000)))))"

text \<open>The centre frequency part: the test for \<open>.cf\<close> in the whole name, then the fields.\<close>

definition parse_cf ::
  "(string \<Rightarrow> real option) \<Rightarrow> (real \<Rightarrow> real \<Rightarrow> real) \<Rightarrow> string \<Rightarrow> string list
   \<Rightarrow> error + real" where
  "parse_cf py_float float_mul filename parts =
     (if str_in ''.cf'' filename then
        (let indices = cf_indices parts in
         if length indices = 1 then cf_at py_float float_mul parts (hd indices)
         else Inr 0)
      else Inr 0)"

text \<open>
  The check of the last three fields, given the centre frequency found so far.
  \<open>supported_data_types\<close> is the catalogue of the base module, a parameter here.
\<close>

definition check_fields ::
  "string list \<Rightarrow> (string \<Rightarrow> real option) \<Rightarrow> string \<Rightarrow> string \<Rightarrow> string \<Rightarrow> real \<Rightarrow> parsed" where
  "check_fields supported_data_types py_float cplx sample_rate data_type centre_frequency =
     (if cplx \<in> set [''cplx'', ''real''] then
        (if cplx \<noteq> ''cplx'' then (False, data_type, False, 0, centre_frequency)
         else if data_type \<in> set supported_data_types then
           (case py_float sample_rate of
              Some r \<Rightarrow> (True, data_type, True, r, centre_frequency)
            | None \<Rightarrow> (False, data_type, True, 0, centre_frequency))
         else (False, data_type, True, 0, centre_frequency))
      else (False, data_type, True, 0, centre_frequency))"

definition parse_filename ::
  "string list \<Rightarrow> (string \<Rightarrow> real option) \<Rightarrow> (real \<Rightarrow> real \<Rightarrow> real) \<Rightarrow> string
   \<Rightarrow> error + parsed" where
  "parse_filename supported_data_types py_float float_mul filename =
     (if filename = [] then Inr (False, [], True, 0, 0)
      else
        (let parts = map strip (split_dot filename) in
         if length parts \<ge> 4 then
           (case py_index parts (- 1) of Inl e \<Rightarrow> Inl e | Inr data_type \<Rightarrow>
            case py_index parts (- 2) of Inl e \<Rightarrow> Inl e | Inr sample_rate \<Rightarrow>
            case py_index parts (- 3) of Inl e \<Rightarrow> Inl e | Inr cplx \<Rightarrow>
            case parse_cf py_float float_mul filename parts of Inl e \<Rightarrow> Inl e | Inr centre_frequency \<Rightarrow>
              Inr (check_fields supported_data_types py_float cplx sample_rate data_type
                     centre_frequency))
         else Inr (False, [], True, 0, 0)))"

subsection \<open>A reader of decimal numerals\<close>

text \<open>
  An instance of the \<open>py_float\<close> parameter for concrete inputs: it reads the plain
  decimal numerals (digits, optionally a point and more digits) and refuses every other
  string. It gives the value of Python's \<open>float\<close> on the numerals whose value is a
  double, as are \<open>100\<close>, \<open>100.5\<close> and \<open>48000\<close>, the only ones converted below.
\<close>

definition digit_of :: "char \<Rightarrow> nat option" where
  "digit_of c =
     (let n = of_char c :: nat in if 48 \<le> n \<and> n \<le> 57 then Some (n - 48) else None)"

fun digits_value :: "nat \<Rightarrow> string \<Rightarrow> nat option" where
  "digits_value acc [] = Some acc"
| "digits_value acc (c # cs) =
     (case digit_of c of None \<Rightarrow> None | Some d \<Rightarrow> digits_value (10 * acc + d) cs)"

definition decimal_float :: "string \<Rightarrow> real option" where
  "decimal_float s =
     (case split_dot s of
        [a] \<Rightarrow> (if a = [] then None else map_option real (digits_value 0 a))
      | [a, b] \<Rightarrow>
          (if a = [] \<and> b = [] then None
           else (case (digits_value 0 a, digits_value 0 b) of
                   (Some x, Some y) \<Rightarrow> Some (real x + real y / 10 ^ length b)
                 | _ \<Rightarrow> None))
      | _ \<Rightarrow> None)"

text \<open>
  An instance of the \<open>float_mul\<close> parameter for concrete inputs: the exact product,
  which is the product of two doubles wherever it is a double itself, as are
  \<open>100 * 1e6\<close> and \<open>100.5 * 1e6\<close>, the only products taken below.
\<close>

definition exact_mul :: "real \<Rightarrow> real \<Rightarrow> real" where
  "exact_mul x y = x * y"

section \<open>File handles\<close>

text \<open>
  The two kinds of handle the source holds are Python objects of the standard library;
  they are modelled by what the source observes of them. A raw handle is the file's bytes,
  a cursor and a closed flag: \<open>read(n)\<close> raises \<open>ValueError\<close> when \<open>n\<close> is below
  \<open>-1\<close>, and otherwise returns at most \<open>n\<close> bytes from the cursor (all the rest when
  \<open>n\<close> is \<open>-1\<close>) and moves the cursor; \<open>seek(0, 0)\<close> puts the cursor at the start;
  both raise \<open>ValueError\<close> on a closed handle; \<open>close\<close> marks the handle closed and
  has no effect on a closed one. Faults of the device under an open handle are not
  modelled.
\<close>

type_synonym byte = "8 word"

record raw_file =
  rf_data :: "byte list"
  rf_pos :: nat
  rf_closed :: bool

definition file_read :: "raw_file \<Rightarrow> int \<Rightarrow> error + (byte list \<times> raw_file)" where
  "file_read f n =
     (if n < - 1 then Inl (ValueError ''read length must be non-negative or -1'')
      else if rf_closed f then Inl (ValueError ''read of closed file'')
      else
        (let rest = drop (rf_pos f) (rf_data f);
             raw_bytes = (if n < 0 then rest else take (nat n) rest)
         in Inr (raw_bytes, f\<lparr>rf_pos := rf_pos f + length raw_bytes\<rparr>)))"

definition file_seek_start :: "raw_file \<Rightarrow> error + raw_file" where
  "file_seek_start f =
     (if rf_closed f then Inl (ValueError ''seek of closed file'')
      else Inr (f\<lparr>rf_pos := 0\<rparr>))"

definition file_close :: "raw_file \<Rightarrow> raw_file" where
  "file_close f = f\<lparr>rf_closed := True\<rparr>"

text \<open>
  A container handle carries the header values the constructor asks for and the bytes of
  the data chunk. \<open>readframes(n)\<close> returns at most \<open>n\<close> frames of
  \<open>nchannels * sampwidth\<close> bytes and raises \<open>ValueError\<close> on a closed handle;
  \<open>rewind\<close> only resets the position and \<open>close\<close> only marks the handle closed, on
  an open or a closed handle alike. The text of the \<open>ValueError\<close> is the one Python
  gives for a read; where a \<open>rewind\<close> came before, Python's text is that of a seek.
\<close>

record Wave_read =
  wf_nchannels :: int
  wf_sampwidth :: int
  wf_framerate :: int
  wf_frames :: "byte list"
  wf_pos :: nat
  wf_closed :: bool

definition wave_readframes :: "Wave_read \<Rightarrow> int \<Rightarrow> error + (byte list \<times> Wave_read)" where
  "wave_readframes w nframes =
     (if wf_closed w then Inl (ValueError ''read of closed file'')
      else
        (let rest = drop (wf_pos w) (wf_frames w);
             size = nframes * (wf_nchannels w * wf_sampwidth w);
             raw_bytes = (if size < 0 then rest else take (nat size) rest)
         in Inr (raw_bytes, w\<lparr>wf_pos := wf_pos w + length raw_bytes\<rparr>)))"

definition wave_rewind :: "Wave_read \<Rightarrow> Wave_read" where
  "wave_rewind w = w\<lparr>wf_pos := 0\<rparr>"

definition wave_close :: "Wave_read \<Rightarrow> Wave_read" where
  "wave_close w = w\<lparr>wf_closed := True\<rparr>"

text \<open>
  The file system the constructor sees: a path either cannot be opened (\<open>OSError\<close>) or
  holds bytes. \<open>wave.open(path, "rb")\<close> opens the path itself, so it fails with the
  same \<open>OSError\<close> where the path cannot be opened, and otherwise reads the header:
  \<open>env_wave_parse\<close> gives the handle of a container, or the error raised on bytes that
  are not one (\<open>wave.Error\<close>, or \<open>EOFError\<close> on a file too short for a header).
\<close>

record env =
  env_files :: "string \<Rightarrow> error + byte list"
  env_wave_parse :: "byte list \<Rightarrow> error + Wave_read"

definition wave_open :: "env \<Rightarrow> string \<Rightarrow> error + Wave_read" where
  "wave_open e path =
     (case env_files e path of
        Inl err \<Rightarrow> Inl err
      | Inr bytes \<Rightarrow>
          (case env_wave_parse e bytes of
             Inl err \<Rightarrow> Inl err
           | Inr w \<Rightarrow> Inr (w\<lparr>wf_pos := 0, wf_closed := False\<rparr>)))"

definition open_rb :: "env \<Rightarrow> string \<Rightarrow> error + raw_file" where
  "open_rb e path =
     (case env_files e path of
        Inl err \<Rightarrow> Inl err
      | Inr bytes \<Rightarrow> Inr \<lparr>rf_data = bytes, rf_pos = 0, rf_closed = False\<rparr>)"

section \<open>The file source\<close>

text \<open>
  The fields of \<open>Input\<close>: those of the base class that this class reads or writes, the
  two handles, the connected flag and the delay between reads. Each field has the name it
  has in the source without the leading underscore, except \<open>_file\<close>, which is
  \<open>file_handle\<close> here.
\<close>

record Input =
  source :: string
  number_complex_samples :: int
  data_type :: string
  sample_rate :: real
  centre_frequency :: real
  bytes_per_snap :: int
  wav_file :: "Wave_read option"
  file_handle :: "raw_file option"
  connected :: bool
  sleep_time :: real

text \<open>
  Modelled from the spec: the constructor of the base class \<open>DataSource\<close>, which is
  not in the source file. It stores its five arguments and sizes a snapshot as
  \<open>number_of_complex_samples * 2 * bytes_per_sample(encoding)\<close>; the width of a sample
  of each encoding, \<open>bytes_per_sample\<close>, is a parameter. The handles, the connected flag
  and the delay are set by \<open>Input.__init__\<close> below and start here as unset.
\<close>

definition DataSource_init ::
  "(string \<Rightarrow> int) \<Rightarrow> string \<Rightarrow> int \<Rightarrow> string \<Rightarrow> real \<Rightarrow> real \<Rightarrow> Input" where
  "DataSource_init bytes_per_sample source_name n dt sr cf =
     \<lparr>source = source_name, number_complex_samples = n, data_type = dt,
      sample_rate = sr, centre_frequency = cf,
      bytes_per_snap = n * 2 * bytes_per_sample dt,
      wav_file = None, file_handle = None, connected = False, sleep_time = 0\<rparr>"

text \<open>
  Modelled from the spec: \<open>set_sample_type\<close> of the base class, which adopts an
  encoding and sizes the snapshot again.
\<close>

definition set_sample_type :: "(string \<Rightarrow> int) \<Rightarrow> string \<Rightarrow> Input \<Rightarrow> Input" where
  "set_sample_type bytes_per_sample dt s =
     s\<lparr>data_type := dt,
       bytes_per_snap := number_complex_samples s * 2 * bytes_per_sample dt\<rparr>"

text \<open>The last two assignments of the constructor.\<close>

definition mark_connected :: "Input \<Rightarrow> Input" where
  "mark_connected s = s\<lparr>connected := True, sleep_time := 0\<rparr>"

text \<open>
  What the constructor does with the tuple \<open>parse_filename\<close> returned, once the raw
  handle is open.
\<close>

definition Input_init_parsed :: "(string \<Rightarrow> int) \<Rightarrow> parsed \<Rightarrow> Input \<Rightarrow> error + Input" where
  "Input_init_parsed bytes_per_sample p s =
     (if p_ok p then
        (if p_complex p then
           (let s1 = set_sample_type bytes_per_sample (p_data_type p) s;
                s2 = s1\<lparr>sample_rate := p_sample_rate p\<rparr>;
                s3 = (if p_centre_frequency p \<noteq> 0
                      then s2\<lparr>centre_frequency := p_centre_frequency p\<rparr> else s2)
            in Inr (mark_connected s3))
         else Inl (ValueError (''Error: Unsupported input of 'real' from '' @ source s)))
      else Inr (mark_connected s))"

text \<open>The handler \<open>except OSError as e\<close> of the inner \<open>try\<close>.\<close>

definition wrap_OSError :: "error \<Rightarrow> error" where
  "wrap_OSError e =
     (case e of
        OSError m \<Rightarrow> ValueError (''Failed to open input file, '' @ m)
      | _ \<Rightarrow> e)"

text \<open>The inner \<open>try\<close>: the fallback to a raw binary file.\<close>

definition Input_init_raw ::
  "string list \<Rightarrow> (string \<Rightarrow> real option) \<Rightarrow> (real \<Rightarrow> real \<Rightarrow> real) \<Rightarrow> (string \<Rightarrow> int)
   \<Rightarrow> env \<Rightarrow> Input \<Rightarrow> error + Input" where
  "Input_init_raw supported_data_types py_float float_mul bytes_per_sample e s =
     (case open_rb e (source s) of
        Inl err \<Rightarrow> Inl (wrap_OSError err)
      | Inr f \<Rightarrow>
          (case parse_filename supported_data_types py_float float_mul (source s) of
             Inl err \<Rightarrow> Inl (wrap_OSError err)
           | Inr p \<Rightarrow>
               (case Input_init_parsed bytes_per_sample p (s\<lparr>file_handle := Some f\<rparr>) of
                  Inl err \<Rightarrow> Inl (wrap_OSError err)
                | Inr s' \<Rightarrow> Inr s')))"

text \<open>
  \<open>Input.__init__\<close>. Only \<open>wave.Error\<close> leads to the fallback; any other exception of
  \<open>wave.open\<close> leaves the constructor as it is.
\<close>

definition Input_init ::
  "string list \<Rightarrow> (string \<Rightarrow> real option) \<Rightarrow> (real \<Rightarrow> real \<Rightarrow> real) \<Rightarrow> (string \<Rightarrow> int)
   \<Rightarrow> env \<Rightarrow> string \<Rightarrow> int \<Rightarrow> string \<Rightarrow> real \<Rightarrow> real \<Rightarrow> error + Input" where
  "Input_init supported_data_types py_float float_mul bytes_per_sample e file_name n dt sr cf =
     (let s = (DataSource_init bytes_per_sample file_name n dt sr cf)
                \<lparr>wav_file := None, file_handle := None\<rparr>
      in case wave_open e (source s) of
           Inr w \<Rightarrow>
             (let s1 = s\<lparr>wav_file := Some w\<rparr> in
              if wf_nchannels w \<noteq> 2 then Inl (ValueError ''file is wav but not 2 channels'')
              else if wf_sampwidth w > 2 then
                Inl (ValueError ''file is wav but more than 2 bytes per sample'')
              else Inr (mark_connected (s1\<lparr>sample_rate := real_of_int (wf_framerate w)\<rparr>)))
         | Inl err \<Rightarrow>
             (case err of
                WaveError m \<Rightarrow>
                  Input_init_raw supported_data_types py_float float_mul bytes_per_sample e s
              | _ \<Rightarrow> Inl err))"

definition set_sleep_time :: "real \<Rightarrow> Input \<Rightarrow> Input" where
  "set_sleep_time t s = s\<lparr>sleep_time := t\<rparr>"

text \<open>
  The bytes one read pulls from whichever handle is set, with the source holding the
  moved handle: the \<open>if\<close> on the two handles inside \<open>read_cplx_samples\<close>.
\<close>

definition pull_bytes :: "Input \<Rightarrow> error + (byte list \<times> Input)" where
  "pull_bytes s =
     (case wav_file s of
        Some w \<Rightarrow>
          (case wave_readframes w (number_complex_samples s) of
             Inl err \<Rightarrow> Inl err
           | Inr (raw_bytes, w') \<Rightarrow> Inr (raw_bytes, s\<lparr>wav_file := Some w'\<rparr>))
      | None \<Rightarrow>
          (case file_handle s of
             Some f \<Rightarrow>
               (case file_read f (bytes_per_snap s) of
                  Inl err \<Rightarrow> Inl err
                | Inr (raw_bytes, f') \<Rightarrow> Inr (raw_bytes, s\<lparr>file_handle := Some f'\<rparr>))
           | None \<Rightarrow> Inr ([], s)))"

text \<open>\<open>time.sleep\<close> refuses a negative delay with \<open>ValueError\<close>.\<close>

definition time_sleep :: "real \<Rightarrow> error option" where
  "time_sleep t = (if t < 0 then Some (ValueError ''sleep length must be non-negative'') else None)"

text \<open>
  \<open>read_cplx_samples\<close>. The result is the exception raised or the pair returned,
  together with the source as the call leaves it: an exception does not undo the moved
  cursor or the cleared flag. \<open>now\<close> is the reading of the clock after the bytes were
  pulled. \<open>unpack_data\<close>, the decoder of the base class, is a parameter. The handler
  \<open>except OSError\<close> turns an \<open>OSError\<close> into a \<open>ValueError\<close> with its message.
\<close>

definition read_OSError :: "error \<Rightarrow> error" where
  "read_OSError e = (case e of OSError m \<Rightarrow> ValueError (''OSError, '' @ m) | _ \<Rightarrow> e)"

definition read_cplx_samples ::
  "(byte list \<Rightarrow> 'c) \<Rightarrow> nat \<Rightarrow> Input \<Rightarrow> (error + ('c option \<times> nat)) \<times> Input" where
  "read_cplx_samples unpack_data now s =
     (if wav_file s \<noteq> None \<or> file_handle s \<noteq> None then
        (case pull_bytes s of
           Inl err \<Rightarrow> (Inl (read_OSError err), s)
         | Inr (raw_bytes, s1) \<Rightarrow>
             if int (length raw_bytes) \<noteq> bytes_per_snap s1 then
               (Inl (ValueError ''End of file''), s1\<lparr>connected := False\<rparr>)
             else
               (case time_sleep (sleep_time s1) of
                  Some err \<Rightarrow> (Inl (read_OSError err), s1)
                | None \<Rightarrow> (Inr (Some (unpack_data raw_bytes), now), s1)))
      else (Inr (None, 0), s))"

definition close :: "Input \<Rightarrow> Input" where
  "close s =
     (case wav_file s of
        Some w \<Rightarrow> s\<lparr>wav_file := Some (wave_close w), connected := False\<rparr>
      | None \<Rightarrow>
          (case file_handle s of
             Some f \<Rightarrow> s\<lparr>file_handle := Some (file_close f), connected := False\<rparr>
           | None \<Rightarrow> s\<lparr>connected := False\<rparr>))"

text \<open>
  \<open>reconnect\<close>: the flag is cleared first, so a \<open>seek\<close> that raises leaves it
  cleared.
\<close>

definition reconnect :: "Input \<Rightarrow> (error + bool) \<times> Input" where
  "reconnect s =
     (let s0 = s\<lparr>connected := False\<rparr> in
      case wav_file s0 of
        Some w \<Rightarrow> (Inr True, s0\<lparr>wav_file := Some (wave_rewind w), connected := True\<rparr>)
      | None \<Rightarrow>
          (case file_handle s0 of
             Some f \<Rightarrow>
               (case file_seek_start f of
                  Inl err \<Rightarrow> (Inl err, s0)
                | Inr f' \<Rightarrow> (Inr True, s0\<lparr>file_handle := Some f', connected := True\<rparr>))
           | None \<Rightarrow> (Inr (connected s0), s0)))"

text \<open>Successive reads, one clock reading each, with the outcome of every read.\<close>

fun read_all ::
  "(byte list \<Rightarrow> 'c) \<Rightarrow> nat list \<Rightarrow> Input
   \<Rightarrow> (error + ('c option \<times> nat)) list \<times> Input" where
  "read_all unpack_data [] s = ([], s)"
| "read_all unpack_data (now # nows) s =
     (let (r, s1) = read_cplx_samples unpack_data now s;
          (rs, s2) = read_all unpack_data nows s1
      in (r # rs, s2))"

text \<open>The calls a user of a constructed source can make, and a run of them.\<close>

datatype call = Read nat | Close | Reconnect | SetSleepTime real

definition do_call :: "(byte list \<Rightarrow> 'c) \<Rightarrow> call \<Rightarrow> Input \<Rightarrow> Input" where
  "do_call unpack_data c s =
     (case c of
        Read now \<Rightarrow> snd (read_cplx_samples unpack_data now s)
      | Close \<Rightarrow> close s
      | Reconnect \<Rightarrow> snd (reconnect s)
      | SetSleepTime t \<Rightarrow> set_sleep_time t s)"

fun run :: "(byte list \<Rightarrow> 'c) \<Rightarrow> call list \<Rightarrow> Input \<Rightarrow> Input" where
  "run unpack_data [] s = s"
| "run unpack_data (c # cs) s = run unpack_data cs (do_call unpack_data c s)"

section \<open>Notions used to state and prove the properties\<close>

text \<open>The first \<open>k\<close> snapshots of \<open>b\<close> bytes of a byte string.\<close>

fun chunks :: "nat \<Rightarrow> nat \<Rightarrow> 'a list \<Rightarrow> 'a list list" where
  "chunks b 0 xs = []"
| "chunks b (Suc k) xs = take b xs # chunks b k (drop b xs)"

text \<open>
  A source as the constructor leaves it: connected, no delay, and one handle, open, with
  its cursor at the start.
\<close>

definition fresh :: "Input \<Rightarrow> bool" where
  "fresh s =
     (connected s \<and> sleep_time s = 0 \<and>
      (case wav_file s of
         Some w \<Rightarrow> file_handle s = None \<and> wf_pos w = 0 \<and> \<not> wf_closed w
       | None \<Rightarrow>
           (case file_handle s of
              Some f \<Rightarrow> rf_pos f = 0 \<and> \<not> rf_closed f
            | None \<Rightarrow> False)))"

text \<open>One handle is set and it is open.\<close>

definition handles_open :: "Input \<Rightarrow> bool" where
  "handles_open s =
     (case wav_file s of
        Some w \<Rightarrow> \<not> wf_closed w \<and> file_handle s = None
      | None \<Rightarrow> (case file_handle s of Some f \<Rightarrow> \<not> rf_closed f | None \<Rightarrow> False))"

text \<open>The source holds a raw handle that has been closed.\<close>

definition raw_closed :: "Input \<Rightarrow> bool" where
  "raw_closed s = (case file_handle s of Some f \<Rightarrow> rf_closed f | None \<Rightarrow> False)"

text \<open>The source with the cursor of its handle at the start and the connected flag set.\<close>

definition rewound :: "Input \<Rightarrow> Input" where
  "rewound s =
     s\<lparr>wav_file := map_option wave_rewind (wav_file s),
       file_handle := map_option (\<lambda>f. f\<lparr>rf_pos := 0\<rparr>) (file_handle s),
       connected := True\<rparr>"

section \<open>A concrete setting\<close>

text \<open>
  Values for the parameters, used where a statement is evaluated at a concrete input: a
  catalogue of three encodings with their sample widths, a decoder that returns the bytes
  as they are, and a file system with three raw files, two of ten bytes and one of nine,
  where every other path is missing. None of the files is a container: as the header
  reader of \<open>wave.open\<close> does, \<open>not_a_container\<close> raises \<open>EOFError\<close> on fewer than
  eight bytes and \<open>wave.Error\<close> on eight or more that do not start with \<open>RIFF\<close>, which
  is how it is used here.
\<close>

definition ex_supported :: "string list" where
  "ex_supported = [''8t'', ''16tbe'', ''16tle'']"

definition ex_bytes_per_sample :: "string \<Rightarrow> int" where
  "ex_bytes_per_sample dt = (if dt = ''8t'' then 1 else 2)"

definition keep_bytes :: "byte list \<Rightarrow> byte list" where
  "keep_bytes raw_bytes = raw_bytes"

definition ex_files :: "string \<Rightarrow> error + byte list" where
  "ex_files path =
     (if path = ''x.cf100.cplx.48000.8t'' then Inr [1, 2, 3, 4, 5, 6, 7, 8, 9, 10]
      else if path = ''x.real.48000.16tle'' then Inr [1, 2, 3, 4, 5, 6, 7, 8, 9, 10]
      else if path = ''short.bin'' then Inr [1, 2, 3, 4, 5, 6, 7, 8, 9]
      else Inl (OSError ''No such file or directory''))"

definition not_a_container :: "byte list \<Rightarrow> error + Wave_read" where
  "not_a_container bytes =
     (if length bytes < 8 then Inl EOFError
      else Inl (WaveError ''file does not start with RIFF id''))"

definition ex_env :: env where
  "ex_env = \<lparr>env_files = ex_files, env_wave_parse = not_a_container\<rparr>"

text \<open>
  The source the constructor builds over the first ten-byte file, asked for two complex
  samples a read: the name gives the encoding \<open>8t\<close>, so a snapshot is four bytes.
\<close>

definition ex_source :: Input where
  "ex_source =
     \<lparr>source = ''x.cf100.cplx.48000.8t'', number_complex_samples = 2, data_type = ''8t'',
      sample_rate = 48000, centre_frequency = 100000000, bytes_per_snap = 4,
      wav_file = None,
      file_handle = Some \<lparr>rf_data = [1, 2, 3, 4, 5, 6, 7, 8, 9, 10], rf_pos = 0,
                           rf_closed = False\<rparr>,
      connected = True, sleep_time = 0\<rparr>"

text \<open>
  The source over the nine-byte file, asked for eight complex samples a read. The name
  carries no fields, so the source keeps the caller's encoding \<open>8t\<close>: a snapshot is
  sixteen bytes, more than the file holds.
\<close>

definition short_source :: Input where
  "short_source =
     \<lparr>source = ''short.bin'', number_complex_samples = 8, data_type = ''8t'',
      sample_rate = 1000, centre_frequency = 0, bytes_per_snap = 16,
      wav_file = None,
      file_handle = Some \<lparr>rf_data = [1, 2, 3, 4, 5, 6, 7, 8, 9], rf_pos = 0,
                           rf_closed = False\<rparr>,
      connected = True, sleep_time = 0\<rparr>"


section \<open>Facts about strings, indices and the fields with \<open>cf\<close>\<close>

lemmas parse_eval = parse_filename_def parse_cf_def cf_at_def cf_indices_def py_index_def
  check_fields_def strip_def is_space_def starts_with_def decimal_float_def digit_of_def
  exact_mul_def ex_supported_def

lemmas init_eval = Input_init_def Input_init_raw_def Input_init_parsed_def DataSource_init_def
  set_sample_type_def mark_connected_def wave_open_def open_rb_def wrap_OSError_def
  ex_env_def ex_files_def not_a_container_def ex_bytes_per_sample_def
  p_ok_def p_complex_def p_data_type_def p_sample_rate_def p_centre_frequency_def

lemmas read_eval = read_cplx_samples_def pull_bytes_def file_read_def file_seek_start_def
  file_close_def wave_readframes_def wave_rewind_def wave_close_def time_sleep_def
  read_OSError_def close_def reconnect_def keep_bytes_def set_sleep_time_def do_call_def

lemma filter_upt_single:
  assumes "i < n" and "P i" and "\<And>j. j < n \<Longrightarrow> j \<noteq> i \<Longrightarrow> \<not> P j"
  shows "filter P [0 ..< n] = [i]"
proof -
  have "[0 ..< i + (n - i)] = [0 ..< i] @ [i ..< i + (n - i)]"
    by (rule upt_add_eq_append) simp
  moreover have "[i ..< n] = i # [Suc i ..< n]"
    using assms(1) by (rule upt_conv_Cons)
  ultimately have split: "[0 ..< n] = [0 ..< i] @ i # [Suc i ..< n]"
    using assms(1) by simp
  have l: "filter P [0 ..< i] = []"
    using assms by (auto simp: filter_empty_conv)
  have r: "filter P [Suc i ..< n] = []"
    using assms by (auto simp: filter_empty_conv)
  show ?thesis
    using assms(2) by (simp add: split l r)
qed

lemma str_in_prefix: "str_in sub (sub @ rest)"
proof (cases "sub @ rest")
  case Nil
  then show ?thesis by simp
next
  case (Cons a list)
  have "starts_with sub (sub @ rest)" by (simp add: starts_with_def)
  then show ?thesis using Cons by simp
qed

lemma cf_indices_single:
  assumes "i < length parts" and "str_in ''cf'' (parts ! i)"
    and "\<And>j. j < length parts \<Longrightarrow> j \<noteq> i \<Longrightarrow> \<not> str_in ''cf'' (parts ! j)"
  shows "cf_indices parts = [i]"
  unfolding cf_indices_def using assms by (intro filter_upt_single) auto

lemma py_index_back:
  "py_index (pre @ [a, b, c, d]) (- 1) = Inr d"
  "py_index (pre @ [a, b, c, d]) (- 2) = Inr c"
  "py_index (pre @ [a, b, c, d]) (- 3) = Inr b"
  "py_index (pre @ [a, b, c, d]) (- 4) = Inr a"
  by (simp_all add: py_index_def nth_append nat_add_distrib)

lemma py_index_here: "py_index (pre @ x # rest) (int (length pre)) = Inr x"
  by (simp add: py_index_def nth_append)

lemma py_index_next: "py_index (pre @ x # y # rest) (int (length pre) + 1) = Inr y"
  by (simp add: py_index_def nth_append nat_add_distrib)

lemma p_centre_frequency_check_fields:
  "p_centre_frequency (check_fields S F cplx rate enc c) = c"
  by (simp add: check_fields_def p_centre_frequency_def split: option.split)

section \<open>Facts about the constructor and about reads\<close>

lemma Input_init_parsed_fresh:
  assumes "Input_init_parsed B p s = Inr s'"
    and "wav_file s = None" and "file_handle s = Some f" and "rf_pos f = 0" and "\<not> rf_closed f"
  shows "fresh s'"
  using assms
  by (auto simp: Input_init_parsed_def fresh_def mark_connected_def set_sample_type_def Let_def
      split: if_splits)

lemma Input_init_fresh:
  assumes "Input_init S F M B e file_name n dt sr cf = Inr s"
  shows "fresh s"
proof (cases "wave_open e file_name")
  case (Inr w)
  have "wf_pos w = 0 \<and> \<not> wf_closed w"
    using Inr by (auto simp: wave_open_def split: sum.splits)
  with assms Inr show ?thesis
    by (auto simp: Input_init_def DataSource_init_def mark_connected_def fresh_def Let_def
        split: if_splits)
next
  case (Inl err)
  let ?s = "(DataSource_init B file_name n dt sr cf)\<lparr>wav_file := None, file_handle := None\<rparr>"
  from assms Inl have raw: "Input_init_raw S F M B e ?s = Inr s"
    by (cases err) (auto simp: Input_init_def DataSource_init_def Let_def)
  then obtain f p where f: "open_rb e (source ?s) = Inr f"
    and p: "Input_init_parsed B p (?s\<lparr>file_handle := Some f\<rparr>) = Inr s"
    by (auto simp: Input_init_raw_def split: sum.splits)
  have "rf_pos f = 0 \<and> \<not> rf_closed f"
    using f by (auto simp: open_rb_def split: sum.splits)
  then show ?thesis
    using Input_init_parsed_fresh [OF p] by (simp add: DataSource_init_def)
qed

lemma file_read_open:
  assumes "\<not> rf_closed f"
  shows "file_read f (int b)
         = Inr (take b (drop (rf_pos f) (rf_data f)),
                f\<lparr>rf_pos := rf_pos f + length (take b (drop (rf_pos f) (rf_data f)))\<rparr>)"
  using assms by (simp add: file_read_def Let_def)

lemma pull_bytes_raw:
  assumes "wav_file s = None" and "file_handle s = Some f" and "\<not> rf_closed f"
    and "bytes_per_snap s = int b"
  shows "pull_bytes s
         = Inr (take b (drop (rf_pos f) (rf_data f)),
                s\<lparr>file_handle :=
                    Some (f\<lparr>rf_pos := rf_pos f + length (take b (drop (rf_pos f) (rf_data f)))\<rparr>)\<rparr>)"
  using assms(1,2,4) by (simp add: pull_bytes_def file_read_open [OF assms(3)])

lemma read_of_pull_full:
  assumes "wav_file s \<noteq> None \<or> file_handle s \<noteq> None"
    and "pull_bytes s = Inr (raw_bytes, s1)"
    and "int (length raw_bytes) = bytes_per_snap s1" and "sleep_time s1 = 0"
  shows "read_cplx_samples U now s = (Inr (Some (U raw_bytes), now), s1)"
  using assms by (simp add: read_cplx_samples_def time_sleep_def)

lemma read_of_pull_short:
  assumes "wav_file s \<noteq> None \<or> file_handle s \<noteq> None"
    and "pull_bytes s = Inr (raw_bytes, s1)"
    and "int (length raw_bytes) \<noteq> bytes_per_snap s1"
  shows "read_cplx_samples U now s = (Inl (ValueError ''End of file''), s1\<lparr>connected := False\<rparr>)"
  using assms by (simp add: read_cplx_samples_def)

lemma read_raw_full:
  assumes "wav_file s = None" and "file_handle s = Some f" and "\<not> rf_closed f"
    and "sleep_time s = 0" and "bytes_per_snap s = int b"
    and "rf_pos f + b \<le> length (rf_data f)"
  shows "read_cplx_samples U now s
         = (Inr (Some (U (take b (drop (rf_pos f) (rf_data f)))), now),
            s\<lparr>file_handle := Some (f\<lparr>rf_pos := rf_pos f + b\<rparr>)\<rparr>)"
proof -
  define raw_bytes where "raw_bytes = take b (drop (rf_pos f) (rf_data f))"
  have len: "length raw_bytes = b"
    using assms(6) by (simp add: raw_bytes_def)
  have pull: "pull_bytes s
              = Inr (raw_bytes, s\<lparr>file_handle := Some (f\<lparr>rf_pos := rf_pos f + b\<rparr>)\<rparr>)"
    using pull_bytes_raw [OF assms(1,2,3,5)] len by (simp add: raw_bytes_def)
  show ?thesis
    unfolding raw_bytes_def [symmetric]
    by (rule read_of_pull_full [OF _ pull]) (use assms len in simp_all)
qed

lemma read_raw_short:
  assumes "wav_file s = None" and "file_handle s = Some f" and "\<not> rf_closed f"
    and "bytes_per_snap s = int b"
    and "length (rf_data f) < rf_pos f + b" and "0 < b"
  shows "fst (read_cplx_samples U now s) = Inl (ValueError ''End of file'')
         \<and> \<not> connected (snd (read_cplx_samples U now s))"
proof -
  define raw_bytes where "raw_bytes = take b (drop (rf_pos f) (rf_data f))"
  have len: "length raw_bytes \<noteq> b"
    using assms(5,6) by (simp add: raw_bytes_def min_def)
  have pull: "pull_bytes s
              = Inr (raw_bytes,
                     s\<lparr>file_handle := Some (f\<lparr>rf_pos := rf_pos f + length raw_bytes\<rparr>)\<rparr>)"
    using pull_bytes_raw [OF assms(1,2,3,4)] by (simp only: raw_bytes_def)
  have "read_cplx_samples U now s
        = (Inl (ValueError ''End of file''),
           s\<lparr>file_handle := Some (f\<lparr>rf_pos := rf_pos f + length raw_bytes\<rparr>),
             connected := False\<rparr>)"
    by (rule read_of_pull_short [OF _ pull]) (use assms len in simp_all)
  then show ?thesis by simp
qed

lemma read_all_raw:
  assumes "wav_file s = None" and "file_handle s = Some f" and "\<not> rf_closed f"
    and "sleep_time s = 0" and "bytes_per_snap s = int b"
    and "length (rf_data f) = rf_pos f + length nows * b + r" and "0 < r" and "r < b"
  shows "fst (read_all U (nows @ [t]) s)
           = map (\<lambda>(raw_bytes, now). Inr (Some (U raw_bytes), now))
               (zip (chunks b (length nows) (drop (rf_pos f) (rf_data f))) nows)
             @ [Inl (ValueError ''End of file'')]
         \<and> \<not> connected (snd (read_all U (nows @ [t]) s))"
  using assms
proof (induction nows arbitrary: s f)
  case Nil
  then have "length (rf_data f) < rf_pos f + b" and "0 < b" by simp_all
  from read_raw_short [OF Nil(1,2,3,5) this, of U t] show ?case
    by (simp add: split_beta)
next
  case (Cons now nows)
  have enough: "rf_pos f + b \<le> length (rf_data f)"
    using Cons.prems(6) by simp
  let ?f = "f\<lparr>rf_pos := rf_pos f + b\<rparr>"
  let ?s = "s\<lparr>file_handle := Some ?f\<rparr>"
  have step: "read_cplx_samples U now s
              = (Inr (Some (U (take b (drop (rf_pos f) (rf_data f)))), now), ?s)"
    by (rule read_raw_full [OF Cons.prems(1,2,3,4,5) enough])
  have rest: "length (rf_data ?f) = rf_pos ?f + length nows * b + r"
    using Cons.prems(6) by simp
  have IH: "fst (read_all U (nows @ [t]) ?s)
              = map (\<lambda>(raw_bytes, now). Inr (Some (U raw_bytes), now))
                  (zip (chunks b (length nows) (drop (rf_pos ?f) (rf_data ?f))) nows)
                @ [Inl (ValueError ''End of file'')]
            \<and> \<not> connected (snd (read_all U (nows @ [t]) ?s))"
    using Cons.prems by (intro Cons.IH [OF _ _ _ _ _ rest]) simp_all
  show ?case
    using IH by (simp add: step split_beta add.commute)
qed

section \<open>The parser on \<open>real\<close> files\<close>

text \<open>
  Whatever the catalogue and the conversion, a result with \<open>ok\<close> set has the complex
  flag set: \<open>ok\<close> is only assigned in the branch where the marker is \<open>cplx\<close>.
\<close>

lemma parse_filename_ok_complex:
  "parse_filename S F M filename = Inr p \<Longrightarrow> p_ok p \<Longrightarrow> p_complex p"
  by (auto simp: parse_filename_def check_fields_def p_ok_def p_complex_def Let_def
      split: if_splits sum.splits option.splits)

text \<open>
  C1. A name whose third-to-last field is \<open>real\<close>, with a numeric rate and a supported
  encoding, is claimed to parse with \<open>ok = true\<close> and \<open>is_complex = false\<close>. On
  \<open>x.real.48000.16tle\<close> the parser clears the complex flag and leaves \<open>ok\<close> false
  and the rate at \<open>0.0\<close>: the rate and the encoding are only looked at under \<open>elif\<close>,
  when the marker is \<open>cplx\<close>.
\<close>

theorem parse_filename_real_not_ok:
  "parse_filename ex_supported decimal_float exact_mul ''x.real.48000.16tle''
   = Inr (False, ''16tle'', False, 0, 0)"
  by (simp add: parse_eval)

section \<open>The constructor on a \<open>real\<close> file\<close>

text \<open>
  Where the path is not a container (\<open>wave.open\<close> raises \<open>wave.Error\<close>) and opens
  as a raw file, the constructor is \<open>Input_init_parsed\<close> on the tuple of the parser
  and the source with the raw handle set.
\<close>

lemma Input_init_raw_path:
  assumes "wave_open e file_name = Inl (WaveError m)"
    and "open_rb e file_name = Inr f"
    and "parse_filename S F M file_name = Inr p"
  shows "Input_init S F M B e file_name n dt sr cf
         = map_sum wrap_OSError id
             (Input_init_parsed B p
                ((DataSource_init B file_name n dt sr cf)\<lparr>file_handle := Some f\<rparr>))"
  using assms
  by (simp add: Input_init_def Input_init_raw_def DataSource_init_def split: sum.split)

text \<open>
  The constructor has a branch that refuses a tuple with \<open>ok\<close> set and the complex flag
  cleared.
\<close>

lemma Input_init_parsed_real_fails:
  assumes "p_ok p" and "\<not> p_complex p"
  shows "Input_init_parsed bytes_per_sample p s
         = Inl (ValueError (''Error: Unsupported input of 'real' from '' @ source s))"
  using assms by (simp add: Input_init_parsed_def)

text \<open>
  That branch is never taken on a tuple of the parser: on such a tuple the constructor
  always completes.
\<close>

lemma Input_init_parsed_after_parser:
  assumes "parse_filename S F M filename = Inr p"
  shows "\<exists>s'. Input_init_parsed B p s = Inr s'"
  using parse_filename_ok_complex [OF assms] by (simp add: Input_init_parsed_def Let_def)


section \<open>The parser when the only field with \<open>cf\<close> is the last\<close>

text \<open>
  C3. The parser is claimed never to raise. On \<open>x.cplx.48000.cf32\<close> the name contains
  \<open>.cf\<close>, the last field is the only one with \<open>cf\<close>, and the read of the field after
  it raises \<open>IndexError\<close>, which the handler for \<open>ValueError\<close> does not catch.
\<close>

theorem parse_filename_cf_last_raises:
  "parse_filename ex_supported decimal_float exact_mul ''x.cplx.48000.cf32'' = Inl IndexError"
  by (simp add: parse_eval)

section \<open>The constructor on a path that cannot be opened\<close>

text \<open>
  C4. A path that cannot be opened is claimed to fail construction with the uniform
  \<open>ValueError\<close>. The first open is the one inside \<open>wave.open\<close>, outside the handler
  for \<open>OSError\<close>: on a missing file the constructor leaves with the \<open>OSError\<close> itself.
\<close>

theorem Input_init_missing_file:
  "Input_init ex_supported decimal_float exact_mul ex_bytes_per_sample ex_env
     ''missing.cplx.48000.8t'' 2 ''8t'' 48000 0
   = Inl (OSError ''No such file or directory'')"
  by (simp add: init_eval)

section \<open>Reading a raw file to its end\<close>

text \<open>
  C5. Let the constructor have built a source over a raw file of \<open>k * b + r\<close> bytes,
  where \<open>b\<close> is the size of a snapshot and \<open>0 < r < b\<close>. Then of \<open>k + 1\<close> reads
  the first \<open>k\<close> succeed, each returning the next \<open>b\<close> bytes decoded, and the last
  one raises \<open>ValueError('End of file')\<close>, returns no array, and leaves the connected
  flag cleared.
\<close>

theorem read_all_raw_then_end_of_file:
  assumes init: "Input_init S F M B e file_name n dt sr cf = Inr s0"
    and raw: "file_handle s0 = Some f"
    and bps: "bytes_per_snap s0 = int b"
    and size: "length (rf_data f) = k * b + r" and "0 < r" and "r < b"
    and reads: "length nows = k"
  shows "fst (read_all U (nows @ [t]) s0)
           = map (\<lambda>(raw_bytes, now). Inr (Some (U raw_bytes), now))
               (zip (chunks b k (rf_data f)) nows)
             @ [Inl (ValueError ''End of file'')]
         \<and> \<not> connected (snd (read_all U (nows @ [t]) s0))"
proof -
  have fr: "fresh s0"
    using init by (rule Input_init_fresh)
  have w: "wav_file s0 = None"
    using fr raw by (auto simp: fresh_def split: option.splits)
  have f: "rf_pos f = 0" "\<not> rf_closed f" "sleep_time s0 = 0"
    using fr raw w by (auto simp: fresh_def)
  have size': "length (rf_data f) = rf_pos f + length nows * b + r"
    using size reads f(1) by simp
  show ?thesis
    using read_all_raw [OF w raw f(2) f(3) bps size' assms(5,6), of U t] f(1) reads
    by simp
qed

theorem read_all_raw_then_end_of_file_witness:
  "Input_init ex_supported decimal_float exact_mul ex_bytes_per_sample ex_env
     ''x.cf100.cplx.48000.8t'' 2 ''16tle'' 1000 0 = Inr ex_source
   \<and> file_handle ex_source
       = Some \<lparr>rf_data = [1, 2, 3, 4, 5, 6, 7, 8, 9, 10], rf_pos = 0, rf_closed = False\<rparr>
   \<and> bytes_per_snap ex_source = int 4
   \<and> length [1, 2, 3, 4, 5, 6, 7, 8, 9, 10 :: byte] = 2 * 4 + 2
   \<and> fst (read_all keep_bytes ([11, 12] @ [13]) ex_source)
       = [Inr (Some [1, 2, 3, 4], 11), Inr (Some [5, 6, 7, 8], 12),
          Inl (ValueError ''End of file'')]
   \<and> \<not> connected (snd (read_all keep_bytes ([11, 12] @ [13]) ex_source))"
proof -
  have h1: "Input_init ex_supported decimal_float exact_mul ex_bytes_per_sample ex_env
              ''x.cf100.cplx.48000.8t'' 2 ''16tle'' 1000 0 = Inr ex_source"
    by (simp add: init_eval parse_eval ex_source_def)
  have h2: "file_handle ex_source
            = Some \<lparr>rf_data = [1, 2, 3, 4, 5, 6, 7, 8, 9, 10], rf_pos = 0, rf_closed = False\<rparr>"
    by (simp add: ex_source_def)
  have h3: "bytes_per_snap ex_source = int 4"
    by (simp add: ex_source_def)
  have h4: "length (rf_data \<lparr>rf_data = [1, 2, 3, 4, 5, 6, 7, 8, 9, 10 :: byte], rf_pos = 0,
                             rf_closed = False\<rparr>) = 2 * 4 + 2"
    by simp
  have h5: "0 < (2::nat)" and h6: "(2::nat) < 4" and h7: "length [11, 12 :: nat] = 2"
    by simp_all
  have chunks: "chunks 4 2 [1, 2, 3, 4, 5, 6, 7, 8, 9, 10 :: byte] = [[1, 2, 3, 4], [5, 6, 7, 8]]"
    by (simp add: numeral_2_eq_2)
  show ?thesis
    using h1 h2 h3 read_all_raw_then_end_of_file [OF h1 h2 h3 h4 h5 h6 h7, of keep_bytes 13]
    by (simp add: chunks keep_bytes_def)
qed

section \<open>Reconnecting after reads\<close>

lemma fresh_handles_open: "fresh s \<Longrightarrow> handles_open s"
  by (auto simp: fresh_def handles_open_def split: option.splits)

lemma fresh_rewound: "fresh s \<Longrightarrow> rewound s = s"
  by (auto simp: fresh_def rewound_def wave_rewind_def split: option.splits)

lemma pull_bytes_keeps:
  assumes "pull_bytes s = Inr (raw_bytes, s1)"
  shows "rewound s1 = rewound s" and "handles_open s \<Longrightarrow> handles_open s1"
  using assms
  by (auto simp: pull_bytes_def rewound_def handles_open_def file_read_def wave_readframes_def
      wave_rewind_def Let_def split: option.splits if_splits)

lemma read_state:
  "snd (read_cplx_samples U now s) = s
   \<or> (\<exists>raw_bytes s1. pull_bytes s = Inr (raw_bytes, s1)
         \<and> (snd (read_cplx_samples U now s) = s1
            \<or> snd (read_cplx_samples U now s) = s1\<lparr>connected := False\<rparr>))"
proof (cases "pull_bytes s")
  case (Inl err)
  then show ?thesis by (simp add: read_cplx_samples_def)
next
  case (Inr r)
  then show ?thesis
    by (cases r) (simp add: read_cplx_samples_def split: option.split)
qed

lemma rewound_disconnected: "rewound (s\<lparr>connected := False\<rparr>) = rewound s"
  by (simp add: rewound_def)

lemma handles_open_disconnected: "handles_open (s\<lparr>connected := False\<rparr>) = handles_open s"
  by (simp add: handles_open_def split: option.split)

lemma read_handles_open:
  "handles_open s \<Longrightarrow> handles_open (snd (read_cplx_samples U now s))"
  using read_state [of U now s] pull_bytes_keeps(2) [of s]
  by (auto simp: handles_open_disconnected)

lemma read_rewound:
  "rewound (snd (read_cplx_samples U now s)) = rewound s"
  using read_state [of U now s] pull_bytes_keeps(1) [of s]
  by (auto simp: rewound_disconnected)

lemma read_all_snd:
  "snd (read_all U (now # nows) s) = snd (read_all U nows (snd (read_cplx_samples U now s)))"
  by (simp add: split_beta)

lemma read_all_keeps:
  "handles_open s \<Longrightarrow>
   handles_open (snd (read_all U nows s)) \<and> rewound (snd (read_all U nows s)) = rewound s"
proof (induction nows arbitrary: s)
  case Nil
  then show ?case by simp
next
  case (Cons now nows)
  from Cons.IH [OF read_handles_open [OF Cons.prems, of U now]]
  show ?case
    by (simp only: read_all_snd read_rewound) 
qed

lemma reconnect_open:
  "handles_open s \<Longrightarrow> reconnect s = (Inr True, rewound s)"
  by (auto simp: handles_open_def reconnect_def rewound_def file_seek_start_def Let_def
      split: option.splits)

text \<open>
  C6, counterexample. Over the file of nine bytes, read eight complex samples of one byte
  a time, a snapshot is sixteen bytes: the first read fails with end of file, which exhausts
  the source; \<open>reconnect\<close> returns true; the read after it fails with end of file again.
\<close>

theorem reconnect_short_file_read_fails:
  "Input_init ex_supported decimal_float exact_mul ex_bytes_per_sample ex_env
     ''short.bin'' 8 ''8t'' 1000 0 = Inr short_source
   \<and> fst (read_cplx_samples keep_bytes 11 short_source) = Inl (ValueError ''End of file'')
   \<and> fst (reconnect (snd (read_cplx_samples keep_bytes 11 short_source))) = Inr True
   \<and> fst (read_cplx_samples keep_bytes 12
             (snd (reconnect (snd (read_cplx_samples keep_bytes 11 short_source)))))
       = Inl (ValueError ''End of file'')"
  by (simp add: init_eval parse_eval read_eval short_source_def Let_def)

text \<open>
  C6, amended. After any number of reads of a constructed source, so also after reading it
  to exhaustion, \<open>reconnect\<close> returns true and leaves the source exactly as the constructor
  left it, cursor at the start and connected flag set. The next read then pulls the same
  bytes as the very first read and has the same outcome: it succeeds where the first read
  succeeded.
\<close>

theorem reconnect_restores_constructed:
  assumes init: "Input_init S F M B e file_name n dt sr cf = Inr s0"
    and reads: "s = snd (read_all U nows s0)"
  shows "reconnect s = (Inr True, s0)
         \<and> pull_bytes (snd (reconnect s)) = pull_bytes s0
         \<and> read_cplx_samples U t (snd (reconnect s)) = read_cplx_samples U t s0"
proof -
  have fr: "fresh s0"
    using init by (rule Input_init_fresh)
  have "handles_open s \<and> rewound s = rewound s0"
    unfolding reads by (rule read_all_keeps [OF fresh_handles_open [OF fr]])
  then have "reconnect s = (Inr True, s0)"
    using fresh_rewound [OF fr] by (simp add: reconnect_open)
  then show ?thesis by simp
qed

theorem reconnect_restores_constructed_witness:
  "Input_init ex_supported decimal_float exact_mul ex_bytes_per_sample ex_env
     ''x.cf100.cplx.48000.8t'' 2 ''16tle'' 1000 0 = Inr ex_source
   \<and> fst (read_all keep_bytes [11, 12, 13] ex_source)
       = [Inr (Some [1, 2, 3, 4], 11), Inr (Some [5, 6, 7, 8], 12),
          Inl (ValueError ''End of file'')]
   \<and> reconnect (snd (read_all keep_bytes [11, 12, 13] ex_source)) = (Inr True, ex_source)
   \<and> fst (read_cplx_samples keep_bytes 14
             (snd (reconnect (snd (read_all keep_bytes [11, 12, 13] ex_source)))))
       = Inr (Some [1, 2, 3, 4], 14)"
proof -
  have h1: "Input_init ex_supported decimal_float exact_mul ex_bytes_per_sample ex_env
              ''x.cf100.cplx.48000.8t'' 2 ''16tle'' 1000 0 = Inr ex_source"
    by (simp add: init_eval parse_eval ex_source_def)
  have outs: "fst (read_all keep_bytes [11, 12, 13] ex_source)
       = [Inr (Some [1, 2, 3, 4], 11), Inr (Some [5, 6, 7, 8], 12),
          Inl (ValueError ''End of file'')]"
    by (simp add: read_eval ex_source_def split_beta Let_def)
  have first: "fst (read_cplx_samples keep_bytes 14 ex_source) = Inr (Some [1, 2, 3, 4], 14)"
    by (simp add: read_eval ex_source_def Let_def)
  show ?thesis
    using h1 outs first
      reconnect_restores_constructed [OF h1 refl, of keep_bytes "[11, 12, 13]" 14]
    by simp
qed

section \<open>The short form of the centre frequency\<close>

text \<open>
  C7, counterexample. The name \<open>cfx.cf100.cplx.48000.16tle\<close> has a \<open>cf100\<close> field
  right before the marker \<open>cplx\<close>, a numeric rate and a supported encoding, and yet its
  centre frequency is left at \<open>0.0\<close>, because the first field contains \<open>cf\<close> too. So
  is that of \<open>cf100.cplx.48000.16tle\<close>, where no dot stands before \<open>cf\<close>.
\<close>

theorem short_cf_second_cf_field:
  "map strip (split_dot ''cfx.cf100.cplx.48000.16tle'')
     = [''cfx'', ''cf'' @ ''100'', ''cplx'', ''48000'', ''16tle'']
   \<and> map strip (split_dot ''cf100.cplx.48000.16tle'')
       = [''cf'' @ ''100'', ''cplx'', ''48000'', ''16tle'']
   \<and> decimal_float ''100'' = Some 100
   \<and> decimal_float ''48000'' = Some 48000
   \<and> ''16tle'' \<in> set ex_supported
   \<and> parse_filename ex_supported decimal_float exact_mul ''cfx.cf100.cplx.48000.16tle''
       = Inr (True, ''16tle'', True, 48000, 0)
   \<and> parse_filename ex_supported decimal_float exact_mul ''cf100.cplx.48000.16tle''
       = Inr (True, ''16tle'', True, 48000, 0)
   \<and> (0 :: real) \<noteq> exact_mul 100 1000000"
  by (simp add: parse_eval)

text \<open>
  C7, amended. Let the name contain \<open>.cf\<close>, and let its fields, split at the dots and
  stripped, end with \<open>cfNNNN\<close>, \<open>cplx\<close>, a rate and an encoding, where \<open>NNNN\<close> and the
  rate convert to floats, the encoding is in the catalogue, and no other field contains
  \<open>cf\<close>. Then the parser returns \<open>ok = true\<close>, the encoding, \<open>is_complex = true\<close>,
  the rate as a float and \<open>NNNN\<close> times \<open>1e6\<close>.
\<close>

theorem parse_filename_short_cf:
  assumes dot_cf: "str_in ''.cf'' filename"
    and fields: "map strip (split_dot filename) = pre @ [''cf'' @ nnnn, ''cplx'', rate, enc]"
    and others: "\<forall>p \<in> set pre \<union> {rate, enc}. \<not> str_in ''cf'' p"
    and cf_num: "py_float nnnn = Some v"
    and rate_num: "py_float rate = Some r"
    and enc_ok: "enc \<in> set supported_data_types"
  shows "parse_filename supported_data_types py_float float_mul filename
         = Inr (True, enc, True, r, float_mul v 1000000)"
proof -
  define cf where "cf = ''cf'' @ nnnn"
  define parts where "parts = pre @ [cf, ''cplx'', rate, enc]"
  have fields': "map strip (split_dot filename) = parts"
    by (simp add: fields parts_def cf_def)
  have len: "4 \<le> length parts"
    by (simp add: parts_def)
  have ne: "filename \<noteq> []"
    using dot_cf by auto
  have here: "str_in ''cf'' (parts ! length pre)"
    using str_in_prefix [of "''cf''" nnnn] by (simp add: parts_def cf_def)
  have nowhere_else: "\<not> str_in ''cf'' (parts ! j)" if "j < length parts" "j \<noteq> length pre" for j
  proof (cases "j < length pre")
    case True
    then show ?thesis using others by (simp add: parts_def nth_append)
  next
    case False
    with that have "j = length pre + 1 \<or> j = length pre + 2 \<or> j = length pre + 3"
      by (auto simp: parts_def)
    then show ?thesis
      using others by (auto simp: parts_def nth_append starts_with_def)
  qed
  have idx: "cf_indices parts = [length pre]"
    by (rule cf_indices_single) (use here nowhere_else in \<open>auto simp: parts_def\<close>)
  have cf: "cf_at py_float float_mul parts (length pre) = Inr (float_mul v 1000000)"
    using py_index_here [of pre cf "[''cplx'', rate, enc]"]
      py_index_next [of pre cf "''cplx''" "[rate, enc]"] cf_num
    by (simp add: cf_at_def parts_def cf_def)
  have pcf: "parse_cf py_float float_mul filename parts = Inr (float_mul v 1000000)"
    using dot_cf by (simp add: parse_cf_def idx cf)
  have chk: "check_fields supported_data_types py_float ''cplx'' rate enc (float_mul v 1000000)
             = (True, enc, True, r, float_mul v 1000000)"
    using rate_num enc_ok by (simp add: check_fields_def)
  have tl_fields: "py_index parts (- 3) = Inr ''cplx''"
    "py_index parts (- 2) = Inr rate" "py_index parts (- 1) = Inr enc"
    using py_index_back [of pre cf "''cplx''" rate enc] by (simp_all add: parts_def)
  show ?thesis
    using ne len by (simp add: parse_filename_def fields' tl_fields pcf chk)
qed

theorem parse_filename_short_cf_witness:
  "str_in ''.cf'' ''x.cf100.cplx.48000.16tle''
   \<and> map strip (split_dot ''x.cf100.cplx.48000.16tle'')
       = [''x''] @ [''cf'' @ ''100'', ''cplx'', ''48000'', ''16tle'']
   \<and> \<not> str_in ''cf'' ''x'' \<and> \<not> str_in ''cf'' ''48000'' \<and> \<not> str_in ''cf'' ''16tle''
   \<and> decimal_float ''100'' = Some 100
   \<and> decimal_float ''48000'' = Some 48000
   \<and> ''16tle'' \<in> set ex_supported
   \<and> parse_filename ex_supported decimal_float exact_mul ''x.cf100.cplx.48000.16tle''
       = Inr (True, ''16tle'', True, 48000, exact_mul 100 1000000)"
proof -
  have h1: "str_in ''.cf'' ''x.cf100.cplx.48000.16tle''"
    by (simp add: starts_with_def)
  have h2: "map strip (split_dot ''x.cf100.cplx.48000.16tle'')
            = [''x''] @ [''cf'' @ ''100'', ''cplx'', ''48000'', ''16tle'']"
    by (simp add: strip_def is_space_def)
  have n1: "\<not> str_in ''cf'' ''x''" and n2: "\<not> str_in ''cf'' ''48000''"
    and n3: "\<not> str_in ''cf'' ''16tle''"
    by (simp_all add: starts_with_def)
  have h3: "\<forall>p \<in> set [''x''] \<union> {''48000'', ''16tle''}. \<not> str_in ''cf'' p"
    using n1 n2 n3 by simp
  have h4: "decimal_float ''100'' = Some 100"
    by (simp add: decimal_float_def digit_of_def)
  have h5: "decimal_float ''48000'' = Some 48000"
    by (simp add: decimal_float_def digit_of_def)
  have h6: "''16tle'' \<in> set ex_supported"
    by (simp add: ex_supported_def)
  have result: "parse_filename ex_supported decimal_float exact_mul ''x.cf100.cplx.48000.16tle''
                = Inr (True, ''16tle'', True, 48000, exact_mul 100 1000000)"
    by (rule parse_filename_short_cf [where py_float = decimal_float
          and float_mul = exact_mul, OF h1 h2 h3 h4 h5 h6])
  show ?thesis
    by (intro conjI h1 h2 n1 n2 n3 h4 h5 h6 result)
qed

section \<open>The long form of the centre frequency\<close>

text \<open>
  C8, counterexample. The name \<open>cfx.cf100.5.cplx.48000.8t\<close> has a \<open>cf100\<close> field, a
  fractional field and the marker, and \<open>100.5\<close> converts, and yet the centre frequency
  is left at \<open>0.0\<close>: two fields contain \<open>cf\<close>. So is that of
  \<open>cf100.5.cplx.48000.8t\<close>, where no dot stands before \<open>cf\<close>.
\<close>

theorem long_cf_second_cf_field:
  "map strip (split_dot ''cfx.cf100.5.cplx.48000.8t'')
     = [''cfx'', ''cf'' @ ''100'', ''5'', ''cplx'', ''48000'', ''8t'']
   \<and> map strip (split_dot ''cf100.5.cplx.48000.8t'')
       = [''cf'' @ ''100'', ''5'', ''cplx'', ''48000'', ''8t'']
   \<and> decimal_float (''100'' @ ''.'' @ ''5'') = Some (201 / 2)
   \<and> parse_filename ex_supported decimal_float exact_mul ''cfx.cf100.5.cplx.48000.8t''
       = Inr (True, ''8t'', True, 48000, 0)
   \<and> parse_filename ex_supported decimal_float exact_mul ''cf100.5.cplx.48000.8t''
       = Inr (True, ''8t'', True, 48000, 0)
   \<and> p_centre_frequency (True, ''8t'', True, 48000, 0) \<noteq> exact_mul (201 / 2) 1000000"
  by (simp add: parse_eval p_centre_frequency_def)

text \<open>
  C8, amended. Let the name contain \<open>.cf\<close>, and let its fields, split at the dots and
  stripped, end with \<open>cfNNNN\<close>, a fractional field that is not itself a marker, the
  marker \<open>cplx\<close> or \<open>real\<close>, and two more fields, where \<open>NNNN.<fractional field>\<close>
  converts to a float and no other field contains \<open>cf\<close>. Then the parser returns, and
  the centre frequency of its result is that float times \<open>1e6\<close>.
\<close>

theorem parse_filename_long_cf:
  assumes dot_cf: "str_in ''.cf'' filename"
    and fields: "map strip (split_dot filename) = pre @ [''cf'' @ nnnn, fracpart, marker, rate, enc]"
    and marker: "marker \<in> {''cplx'', ''real''}"
    and not_marker: "fracpart \<notin> {''cplx'', ''real''}"
    and others: "\<forall>p \<in> set pre \<union> {fracpart, rate, enc}. \<not> str_in ''cf'' p"
    and cf_num: "py_float (nnnn @ ''.'' @ fracpart) = Some v"
  shows "\<exists>p. parse_filename supported_data_types py_float float_mul filename = Inr p
             \<and> p_centre_frequency p = float_mul v 1000000"
proof -
  define cf where "cf = ''cf'' @ nnnn"
  define parts where "parts = pre @ [cf, fracpart, marker, rate, enc]"
  have fields': "map strip (split_dot filename) = parts"
    by (simp add: fields parts_def cf_def)
  have len: "4 \<le> length parts"
    by (simp add: parts_def)
  have ne: "filename \<noteq> []"
    using dot_cf by auto
  have here: "str_in ''cf'' (parts ! length pre)"
    using str_in_prefix [of "''cf''" nnnn] by (simp add: parts_def cf_def)
  have m: "\<not> str_in ''cf'' marker"
    using marker by (auto simp: starts_with_def)
  have nowhere_else: "\<not> str_in ''cf'' (parts ! j)" if "j < length parts" "j \<noteq> length pre" for j
  proof (cases "j < length pre")
    case True
    then show ?thesis using others by (simp add: parts_def nth_append)
  next
    case False
    with that have "j = length pre + 1 \<or> j = length pre + 2 \<or> j = length pre + 3
                    \<or> j = length pre + 4"
      by (auto simp: parts_def)
    then show ?thesis
      using others m by (auto simp: parts_def nth_append)
  qed
  have idx: "cf_indices parts = [length pre]"
    by (rule cf_indices_single) (use here nowhere_else in \<open>auto simp: parts_def\<close>)
  have tl_fields: "py_index parts (- 4) = Inr fracpart" "py_index parts (- 3) = Inr marker"
    "py_index parts (- 2) = Inr rate" "py_index parts (- 1) = Inr enc"
    using py_index_back [of "pre @ [cf]" fracpart marker rate enc] by (simp_all add: parts_def)
  have cf: "cf_at py_float float_mul parts (length pre) = Inr (float_mul v 1000000)"
    using py_index_here [of pre cf "[fracpart, marker, rate, enc]"]
      py_index_next [of pre cf fracpart "[marker, rate, enc]"] cf_num not_marker tl_fields(1)
    by (simp add: cf_at_def parts_def [symmetric]) (simp add: cf_def)
  have pcf: "parse_cf py_float float_mul filename parts = Inr (float_mul v 1000000)"
    using dot_cf by (simp add: parse_cf_def idx cf)
  have "parse_filename supported_data_types py_float float_mul filename
        = Inr (check_fields supported_data_types py_float marker rate enc (float_mul v 1000000))"
    using ne len by (simp add: parse_filename_def fields' tl_fields pcf)
  then show ?thesis
    by (simp add: p_centre_frequency_check_fields)
qed

theorem parse_filename_long_cf_witness:
  "str_in ''.cf'' ''x.cf100.5.cplx.48000.8t''
   \<and> map strip (split_dot ''x.cf100.5.cplx.48000.8t'')
       = [''x''] @ [''cf'' @ ''100'', ''5'', ''cplx'', ''48000'', ''8t'']
   \<and> ''cplx'' \<in> {''cplx'', ''real''}
   \<and> ''5'' \<notin> {''cplx'', ''real''}
   \<and> \<not> str_in ''cf'' ''x'' \<and> \<not> str_in ''cf'' ''5'' \<and> \<not> str_in ''cf'' ''48000''
   \<and> \<not> str_in ''cf'' ''8t''
   \<and> decimal_float (''100'' @ ''.'' @ ''5'') = Some (201 / 2)
   \<and> (\<exists>p. parse_filename ex_supported decimal_float exact_mul ''x.cf100.5.cplx.48000.8t'' = Inr p
          \<and> p_centre_frequency p = exact_mul (201 / 2) 1000000)"
proof -
  have h1: "str_in ''.cf'' ''x.cf100.5.cplx.48000.8t''"
    by (simp add: starts_with_def)
  have h2: "map strip (split_dot ''x.cf100.5.cplx.48000.8t'')
            = [''x''] @ [''cf'' @ ''100'', ''5'', ''cplx'', ''48000'', ''8t'']"
    by (simp add: strip_def is_space_def)
  have h3: "''cplx'' \<in> {''cplx'', ''real''}"
    by simp
  have h4: "''5'' \<notin> {''cplx'', ''real''}"
    by simp
  have n1: "\<not> str_in ''cf'' ''x''" and n2: "\<not> str_in ''cf'' ''5''"
    and n3: "\<not> str_in ''cf'' ''48000''" and n4: "\<not> str_in ''cf'' ''8t''"
    by (simp_all add: starts_with_def)
  have h5: "\<forall>p \<in> set [''x''] \<union> {''5'', ''48000'', ''8t''}. \<not> str_in ''cf'' p"
    using n1 n2 n3 n4 by simp
  have h6: "decimal_float (''100'' @ ''.'' @ ''5'') = Some (201 / 2)"
    by (simp add: decimal_float_def digit_of_def)
  have result: "\<exists>p. parse_filename ex_supported decimal_float exact_mul ''x.cf100.5.cplx.48000.8t'' = Inr p
                    \<and> p_centre_frequency p = exact_mul (201 / 2) 1000000"
    by (rule parse_filename_long_cf [where py_float = decimal_float and nnnn = "''100''"
          and fracpart = "''5''" and supported_data_types = ex_supported
          and float_mul = exact_mul, OF h1 h2 h3 h4 h5 h6])
  show ?thesis
    by (intro conjI h1 h2 h3 h4 n1 n2 n3 n4 h6 result)
qed

section \<open>Closing\<close>

text \<open>
  C9. \<open>close\<close> has no raising branch: closing a handle is total, on an open or a closed
  handle, so \<open>close\<close> returns from every state of the source, whatever reads or closes
  came before. The connected flag is cleared when it returns, and a second \<open>close\<close>
  returns as well and changes nothing.
\<close>

theorem close_disconnects_idempotent:
  "\<not> connected (close s) \<and> close (close s) = close s"
  by (simp add: close_def wave_close_def file_close_def split: option.split)

section \<open>The two handles\<close>

lemma pull_bytes_handles:
  "pull_bytes s = Inr (raw_bytes, s1) \<Longrightarrow>
   (wav_file s1 = None) = (wav_file s = None) \<and> (file_handle s1 = None) = (file_handle s = None)"
  by (auto simp: pull_bytes_def split: option.splits sum.splits)

lemma read_handles:
  "(wav_file (snd (read_cplx_samples U now s)) = None) = (wav_file s = None)
   \<and> (file_handle (snd (read_cplx_samples U now s)) = None) = (file_handle s = None)"
proof (cases "pull_bytes s")
  case (Inl err)
  then show ?thesis by (simp add: read_cplx_samples_def)
next
  case (Inr r)
  obtain raw_bytes s1 where r: "r = (raw_bytes, s1)" by (cases r)
  from pull_bytes_handles [OF Inr [unfolded r]] show ?thesis
    by (simp add: read_cplx_samples_def Inr r split: option.split)
qed

lemma close_handles:
  "(wav_file (close s) = None) = (wav_file s = None)
   \<and> (file_handle (close s) = None) = (file_handle s = None)"
  by (simp add: close_def split: option.split)

lemma reconnect_handles:
  "(wav_file (snd (reconnect s)) = None) = (wav_file s = None)
   \<and> (file_handle (snd (reconnect s)) = None) = (file_handle s = None)"
  by (simp add: reconnect_def Let_def split: option.split sum.split)

lemma do_call_handles:
  "(wav_file (do_call U c s) = None) = (wav_file s = None)
   \<and> (file_handle (do_call U c s) = None) = (file_handle s = None)"
  by (cases c) (simp_all add: do_call_def read_handles close_handles reconnect_handles
      set_sleep_time_def)

lemma run_handles:
  "(wav_file (run U calls s) = None) = (wav_file s = None)
   \<and> (file_handle (run U calls s) = None) = (file_handle s = None)"
  by (induction calls arbitrary: s) (simp_all add: do_call_handles)

lemma fresh_one_handle: "fresh s \<Longrightarrow> (wav_file s = None) \<noteq> (file_handle s = None)"
  by (auto simp: fresh_def split: option.splits)

lemma read_raw_closed: "raw_closed (snd (read_cplx_samples U now s)) = raw_closed s"
proof -
  have pull: "raw_closed s1 = raw_closed s" if "pull_bytes s = Inr (raw_bytes, s1)"
    for raw_bytes s1
    using that
    by (auto simp: pull_bytes_def raw_closed_def file_read_def Let_def
        split: option.splits sum.splits if_splits)
  have flag: "raw_closed (s1\<lparr>connected := False\<rparr>) = raw_closed s1" for s1
    by (simp add: raw_closed_def)
  from read_state [of U now s] show ?thesis
    by (auto simp: pull flag)
qed

lemma do_call_raw_closed:
  assumes "(wav_file s = None) \<noteq> (file_handle s = None)"
  shows "raw_closed (do_call U c s) = (raw_closed s \<or> (c = Close \<and> file_handle s \<noteq> None))"
proof (cases c)
  case (Read now)
  then show ?thesis by (simp add: do_call_def read_raw_closed)
next
  case Close
  with assms show ?thesis
    by (auto simp: do_call_def close_def raw_closed_def file_close_def split: option.splits)
next
  case Reconnect
  then show ?thesis
    by (auto simp: do_call_def reconnect_def raw_closed_def file_seek_start_def Let_def
        split: option.splits)
next
  case (SetSleepTime t)
  then show ?thesis by (simp add: do_call_def set_sleep_time_def raw_closed_def)
qed

lemma run_raw_closed:
  assumes "(wav_file s = None) \<noteq> (file_handle s = None)"
  shows "raw_closed (run U calls s)
         = (raw_closed s \<or> (file_handle s \<noteq> None \<and> Close \<in> set calls))"
  using assms
proof (induction calls arbitrary: s)
  case Nil
  then show ?case by simp
next
  case (Cons c calls)
  have one: "(wav_file (do_call U c s) = None) \<noteq> (file_handle (do_call U c s) = None)"
    using Cons.prems do_call_handles [of U c s] by simp
  have same: "(file_handle (do_call U c s) \<noteq> None) = (file_handle s \<noteq> None)"
    using do_call_handles [of U c s] by simp
  show ?case
    using Cons.IH [OF one] do_call_raw_closed [OF Cons.prems, of U c] same by auto
qed

lemma reconnect_one_handle:
  assumes "(wav_file s = None) \<noteq> (file_handle s = None)"
  shows "reconnect s
         = (if raw_closed s
            then (Inl (ValueError ''seek of closed file''), s\<lparr>connected := False\<rparr>)
            else (Inr True, rewound s))"
  using assms
  by (auto simp: reconnect_def raw_closed_def rewound_def file_seek_start_def Let_def
      split: option.splits)

text \<open>
  C10, counterexample. On the source over the ten-byte raw file, \<open>reconnect\<close> after
  \<open>close\<close> does not return true: \<open>seek\<close> on the closed handle raises \<open>ValueError\<close>.
\<close>

theorem reconnect_after_close_raises:
  "Input_init ex_supported decimal_float exact_mul ex_bytes_per_sample ex_env
     ''x.cf100.cplx.48000.8t'' 2 ''16tle'' 1000 0 = Inr ex_source
   \<and> fst (reconnect (close ex_source)) = Inl (ValueError ''seek of closed file'')
   \<and> fst (reconnect (close ex_source)) \<noteq> Inr True"
  by (simp add: init_eval parse_eval read_eval ex_source_def Let_def)

text \<open>
  C10, amended. After any run of reads, closes, reconnects and changes of the delay on a
  constructed source, exactly one of the two handles is set, and it is the one the
  constructor set: no call clears a handle. So \<open>reconnect\<close> never takes its last branch
  and never returns false. The raw handle is closed exactly when the source is a raw one
  and \<open>close\<close> was among the calls; then \<open>reconnect\<close> raises
  \<open>ValueError('seek of closed file')\<close> and leaves the connected flag cleared. In every
  other case it returns true, with the cursor at the start and the connected flag set.
\<close>

theorem handles_kept_reconnect_never_false:
  assumes init: "Input_init S F M B e file_name n dt sr cf = Inr s0"
    and calls: "s = run U calls s0"
  shows "(wav_file s = None) \<noteq> (file_handle s = None)
         \<and> (wav_file s = None) = (wav_file s0 = None)
         \<and> (file_handle s = None) = (file_handle s0 = None)
         \<and> fst (reconnect s) \<noteq> Inr False
         \<and> raw_closed s = (file_handle s0 \<noteq> None \<and> Close \<in> set calls)
         \<and> reconnect s
             = (if raw_closed s
                then (Inl (ValueError ''seek of closed file''), s\<lparr>connected := False\<rparr>)
                else (Inr True, rewound s))"
proof -
  have fr: "fresh s0"
    using init by (rule Input_init_fresh)
  have one0: "(wav_file s0 = None) \<noteq> (file_handle s0 = None)"
    using fr by (rule fresh_one_handle)
  have open0: "\<not> raw_closed s0"
    using fr by (auto simp: fresh_def raw_closed_def split: option.splits)
  have kept: "(wav_file s = None) = (wav_file s0 = None)"
    "(file_handle s = None) = (file_handle s0 = None)"
    unfolding calls using run_handles [of U calls s0] by simp_all
  have one: "(wav_file s = None) \<noteq> (file_handle s = None)"
    using one0 kept by simp
  have closed: "raw_closed s = (file_handle s0 \<noteq> None \<and> Close \<in> set calls)"
    unfolding calls using run_raw_closed [OF one0, of U calls] open0 by simp
  have rc: "reconnect s
            = (if raw_closed s
               then (Inl (ValueError ''seek of closed file''), s\<lparr>connected := False\<rparr>)
               else (Inr True, rewound s))"
    using one by (rule reconnect_one_handle)
  have never: "fst (reconnect s) \<noteq> Inr False"
    by (simp add: rc)
  show ?thesis
    by (intro conjI one kept never closed rc)
qed

theorem handles_kept_reconnect_never_false_witness:
  "Input_init ex_supported decimal_float exact_mul ex_bytes_per_sample ex_env
     ''x.cf100.cplx.48000.8t'' 2 ''16tle'' 1000 0 = Inr ex_source
   \<and> wav_file (run keep_bytes [Read 11, Read 12, Read 13, Reconnect, Close] ex_source) = None
   \<and> raw_closed (run keep_bytes [Read 11, Read 12, Read 13, Reconnect, Close] ex_source)
   \<and> fst (reconnect (run keep_bytes [Read 11, Read 12, Read 13, Reconnect, Close] ex_source))
       = Inl (ValueError ''seek of closed file'')
   \<and> \<not> connected
         (snd (reconnect (run keep_bytes [Read 11, Read 12, Read 13, Reconnect, Close]
                            ex_source)))
   \<and> fst (reconnect (run keep_bytes [Read 11, Read 12, Read 13] ex_source)) = Inr True"
proof -
  have h1: "Input_init ex_supported decimal_float exact_mul ex_bytes_per_sample ex_env
              ''x.cf100.cplx.48000.8t'' 2 ''16tle'' 1000 0 = Inr ex_source"
    by (simp add: init_eval parse_eval ex_source_def)
  have raw: "file_handle ex_source \<noteq> None" "wav_file ex_source = None"
    by (simp_all add: ex_source_def)
  note after_close =
    handles_kept_reconnect_never_false [OF h1 refl, of keep_bytes
      "[Read 11, Read 12, Read 13, Reconnect, Close]"]
  note no_close =
    handles_kept_reconnect_never_false [OF h1 refl, of keep_bytes "[Read 11, Read 12, Read 13]"]
  have c1: "wav_file (run keep_bytes [Read 11, Read 12, Read 13, Reconnect, Close] ex_source)
            = None"
    using after_close raw by simp
  have c2: "raw_closed (run keep_bytes [Read 11, Read 12, Read 13, Reconnect, Close] ex_source)"
    using after_close raw by simp
  have c3: "fst (reconnect (run keep_bytes [Read 11, Read 12, Read 13, Reconnect, Close]
                              ex_source))
            = Inl (ValueError ''seek of closed file'')"
    using after_close c2 by simp
  have c4: "\<not> connected
               (snd (reconnect (run keep_bytes [Read 11, Read 12, Read 13, Reconnect, Close]
                                  ex_source)))"
    using after_close c2 by simp
  have c5: "fst (reconnect (run keep_bytes [Read 11, Read 12, Read 13] ex_source)) = Inr True"
    using no_close raw by simp
  show ?thesis
    by (intro conjI h1 c1 c2 c3 c4 c5)
qed

end
